theory Spec2Isabelle
  imports Complex_Main
begin

section \<open>Data model\<close>

text \<open>
  The simulation engine of FlowSim Material Studio (class \<open>FlowSimulationEngine\<close>)
  and the data it reads. JavaScript numbers are modelled as mathematical reals: the
  arithmetic of the stepper is read as exact arithmetic, which is also how the
  specification states its properties. Infinities and NaN are outside the model.
  Rounding is outside \<open>updateParticle\<close>; it is written out in
  \<open>updateParticle_fl\<close>, the same callback with every operation rounded, which is
  the model where a property adds up the results of many ticks.

  Several objects of the source share field names (\<open>density\<close>, \<open>friction\<close>,
  \<open>color\<close>). Every record keeps the source's field names; where two records
  share a name the selector is written qualified, e.g. \<open>particle.friction\<close> for the
  field of a particle and \<open>FlowSimulationEngine.friction\<close> for the field of the engine.
\<close>

record properties =
  density :: real
  friction :: real
  elasticity :: real
  size_p :: string
  color :: string

text \<open>
  The field \<open>id\<close> of a material is called \<open>id_m\<close> and the field \<open>size\<close> of
  its properties \<open>size_p\<close>, since \<open>id\<close> and \<open>size\<close> are constants of HOL.
\<close>

record material =
  id_m :: string
  name :: string
  category :: string
  type :: string
  properties :: properties

record particle =
  x :: real
  y :: real
  vx :: real
  vy :: real
  radius :: real
  color :: string
  density :: real
  friction :: real

record FlowSimulationEngine =
  particles :: "particle list"
  isRunning :: bool
  speed :: real
  gravity :: real
  friction :: real

text \<open>The part of the global \<open>appState\<close> that the engine reads and writes.\<close>

record appState =
  currentMaterial :: "material option"
  simulationActive :: bool

text \<open>The canvas element \<open>mainCanvas\<close>: only its two dimensions are read.\<close>

record canvas =
  width :: real
  height :: real

text \<open>
  The globals of the page the engine touches. \<open>random\<close> is the sequence of values
  that the coming calls of \<open>Math.random()\<close> return: call number \<open>k\<close> from now on
  returns \<open>random k\<close>.
\<close>

record world =
  flowSimulation :: FlowSimulationEngine
  appState :: appState
  mainCanvas :: canvas
  random :: "nat \<Rightarrow> real"

section \<open>The engine\<close>

subsection \<open>The constructor and the setters\<close>

definition constructor :: FlowSimulationEngine where
  "constructor =
     \<lparr>particles = [], isRunning = False, speed = 1.0, gravity = 9.8,
      FlowSimulationEngine.friction = 0.98\<rparr>"

definition setSpeed :: "real \<Rightarrow> FlowSimulationEngine \<Rightarrow> FlowSimulationEngine" where
  "setSpeed s this = this\<lparr>speed := s\<rparr>"

definition setGravity :: "real \<Rightarrow> FlowSimulationEngine \<Rightarrow> FlowSimulationEngine" where
  "setGravity g this = this\<lparr>gravity := g\<rparr>"

subsection \<open>updateParticles\<close>

text \<open>
  The body of the callback of \<open>updateParticles\<close>, statement by statement. Each
  \<open>let\<close> is one assignment of the source; the two \<open>if\<close>s are the two boundary
  tests, in the source's order.
\<close>

definition updateParticle :: "FlowSimulationEngine \<Rightarrow> canvas \<Rightarrow> particle \<Rightarrow> particle" where
  "updateParticle this cv particle =
     (let p1 = particle\<lparr>vy := vy particle + (gravity this * particle.density particle) * 0.01\<rparr>;
          p2 = p1\<lparr>vx := vx p1 * particle.friction p1\<rparr>;
          p3 = p2\<lparr>vy := vy p2 * particle.friction p2\<rparr>;
          p4 = p3\<lparr>x := x p3 + vx p3 * speed this\<rparr>;
          p5 = p4\<lparr>y := y p4 + vy p4 * speed this\<rparr>;
          p6 = (if x p5 < radius p5 \<or> x p5 > width cv - radius p5
                then p5\<lparr>vx := vx p5 * (- 0.8)\<rparr> else p5);
          p7 = (if y p6 > height cv - radius p6
                then p6\<lparr>y := height cv - radius p6, vy := vy p6 * (- 0.8)\<rparr> else p6)
      in p7)"

text \<open>
  \<open>Array.prototype.forEach\<close>: the callback runs on the elements in index order and
  mutates each in place. The particles are distinct objects (each is created by its own
  object literal in \<open>initializeParticles\<close>), so the array is a list of values and the
  mutation of element \<open>i\<close> is a list update at \<open>i\<close>.
\<close>

function forEach :: "('a \<Rightarrow> 'a) \<Rightarrow> nat \<Rightarrow> 'a list \<Rightarrow> 'a list" where
  "forEach f i ps = (if i < length ps then forEach f (Suc i) (ps[i := f (ps ! i)]) else ps)"
  by pat_completeness auto
termination
  by (relation "measure (\<lambda>(f, i, ps). length ps - i)") auto

declare forEach.simps [simp del]

definition updateParticles :: "canvas \<Rightarrow> FlowSimulationEngine \<Rightarrow> FlowSimulationEngine" where
  "updateParticles cv this = this\<lparr>particles := forEach (updateParticle this cv) 0 (particles this)\<rparr>"

text \<open>\<open>n\<close> ticks of one particle, and of the engine.\<close>

definition ticks :: "FlowSimulationEngine \<Rightarrow> canvas \<Rightarrow> nat \<Rightarrow> particle \<Rightarrow> particle" where
  "ticks this cv n = (updateParticle this cv) ^^ n"

definition updateParticlesN :: "canvas \<Rightarrow> nat \<Rightarrow> FlowSimulationEngine \<Rightarrow> FlowSimulationEngine" where
  "updateParticlesN cv n = (updateParticles cv) ^^ n"

text \<open>
  The callback with the rounding of its arithmetic written out. A JavaScript number is a
  binary64 floating-point number, and each \<open>+\<close>, \<open>-\<close> and \<open>*\<close> of the source
  returns the exact result rounded to the nearest such number; \<open>fl\<close> is that
  rounding, and a decimal literal \<open>c\<close> of the source is the number \<open>fl c\<close>.
  \<open>a += b * c\<close> is \<open>fl (a + fl (b * c))\<close>. The statements, their order and the
  tests are those of \<open>updateParticle\<close>, which is the case of \<open>fl\<close> the identity.
\<close>

definition updateParticle_fl ::
  "(real \<Rightarrow> real) \<Rightarrow> FlowSimulationEngine \<Rightarrow> canvas \<Rightarrow> particle \<Rightarrow> particle" where
  "updateParticle_fl fl this cv particle =
     (let p1 = particle\<lparr>vy := fl (vy particle
                   + fl (fl (gravity this * particle.density particle) * fl 0.01))\<rparr>;
          p2 = p1\<lparr>vx := fl (vx p1 * particle.friction p1)\<rparr>;
          p3 = p2\<lparr>vy := fl (vy p2 * particle.friction p2)\<rparr>;
          p4 = p3\<lparr>x := fl (x p3 + fl (vx p3 * speed this))\<rparr>;
          p5 = p4\<lparr>y := fl (y p4 + fl (vy p4 * speed this))\<rparr>;
          p6 = (if x p5 < radius p5 \<or> x p5 > fl (width cv - radius p5)
                then p5\<lparr>vx := fl (vx p5 * (- fl 0.8))\<rparr> else p5);
          p7 = (if y p6 > fl (height cv - radius p6)
                then p6\<lparr>y := fl (height cv - radius p6), vy := fl (vy p6 * (- fl 0.8))\<rparr> else p6)
      in p7)"

definition ticks_fl ::
  "(real \<Rightarrow> real) \<Rightarrow> FlowSimulationEngine \<Rightarrow> canvas \<Rightarrow> nat \<Rightarrow> particle \<Rightarrow> particle" where
  "ticks_fl fl this cv n = (updateParticle_fl fl this cv) ^^ n"

subsection \<open>initializeParticles\<close>

definition particleCount :: "material \<Rightarrow> nat" where
  "particleCount material =
     (if type material = ''bulk'' then 500
      else if type material = ''granular'' then 300
      else if type material = ''particle'' then 100
      else 100)"

text \<open>
  The object literal pushed in iteration \<open>i\<close>. Its four calls of \<open>Math.random()\<close>
  are calls number \<open>4 * i\<close> to \<open>4 * i + 3\<close> of the initialisation, in the order of
  the properties \<open>x\<close>, \<open>y\<close>, \<open>vx\<close>, \<open>vy\<close>. \<open>c || '#3498db'\<close> takes the
  default when \<open>c\<close> is the empty string.
\<close>

definition newParticle :: "material \<Rightarrow> canvas \<Rightarrow> (nat \<Rightarrow> real) \<Rightarrow> nat \<Rightarrow> particle" where
  "newParticle material cv rnd i =
     \<lparr>x = rnd (4 * i) * width cv,
      y = rnd (4 * i + 1) * 100,
      vx = (rnd (4 * i + 2) - 0.5) * 2,
      vy = rnd (4 * i + 3) * 2,
      radius = (if size_p (properties material) = ''small'' then 3
                else if size_p (properties material) = ''medium'' then 5 else 8),
      particle.color = (if properties.color (properties material) = [] then ''#3498db''
                        else properties.color (properties material)),
      particle.density = properties.density (properties material),
      particle.friction = properties.friction (properties material)\<rparr>"

text \<open>The \<open>for\<close> loop: \<open>i\<close> counts up to \<open>particleCount\<close>, each round pushes one particle.\<close>

function pushLoop :: "material \<Rightarrow> canvas \<Rightarrow> (nat \<Rightarrow> real) \<Rightarrow> nat \<Rightarrow> nat \<Rightarrow> particle list \<Rightarrow> particle list" where
  "pushLoop material cv rnd cnt i ps =
     (if i < cnt then pushLoop material cv rnd cnt (Suc i) (ps @ [newParticle material cv rnd i])
      else ps)"
  by pat_completeness auto
termination
  by (relation "measure (\<lambda>(material, cv, rnd, cnt, i, ps). cnt - i)") auto

declare pushLoop.simps [simp del]

text \<open>
  \<open>initializeParticles\<close> reads \<open>appState.currentMaterial\<close>; its only caller has
  tested that a material is there, and the model takes that material as an argument.
\<close>

definition initializeParticles :: "material \<Rightarrow> world \<Rightarrow> world" where
  "initializeParticles material w =
     (let w1 = w\<lparr>flowSimulation := (flowSimulation w)\<lparr>particles := []\<rparr>\<rparr>;
          cnt = particleCount material;
          ps = pushLoop material (mainCanvas w1) (random w1) cnt 0 (particles (flowSimulation w1))
      in w1\<lparr>flowSimulation := (flowSimulation w1)\<lparr>particles := ps\<rparr>,
             random := (\<lambda>k. random w1 (k + 4 * cnt))\<rparr>)"

subsection \<open>animate, start and stop\<close>

text \<open>
  One call of \<open>animate\<close>: nothing when the engine is not running, else one update of
  the particles. Drawing changes no field of the model, and the next call is left to
  \<open>requestAnimationFrame\<close>, so one call is one frame.
\<close>

definition animate :: "world \<Rightarrow> world" where
  "animate w =
     (if \<not> isRunning (flowSimulation w) then w
      else w\<lparr>flowSimulation := updateParticles (mainCanvas w) (flowSimulation w)\<rparr>)"

definition start :: "world \<Rightarrow> world" where
  "start w =
     (if isRunning (flowSimulation w) then w
      else
        let w1 = w\<lparr>flowSimulation := (flowSimulation w)\<lparr>isRunning := True\<rparr>\<rparr>;
            w2 = w1\<lparr>appState := (appState w1)\<lparr>simulationActive := True\<rparr>\<rparr>;
            w3 = (case currentMaterial (appState w2) of
                    Some material \<Rightarrow> initializeParticles material w2
                  | None \<Rightarrow> w2)
        in animate w3)"

definition stop :: "world \<Rightarrow> world" where
  "stop w =
     (let w1 = w\<lparr>flowSimulation := (flowSimulation w)\<lparr>isRunning := False\<rparr>\<rparr>
      in w1\<lparr>appState := (appState w1)\<lparr>simulationActive := False\<rparr>\<rparr>)"

subsection \<open>The sample material library\<close>

text \<open>The entry \<open>mat_003\<close> of the library that \<open>loadMaterialLibrary\<close> installs.\<close>

definition Sand :: material where
  "Sand =
     \<lparr>id_m = ''mat_003'', name = ''Sand'', category = ''granular'', type = ''bulk'',
      properties = \<lparr>properties.density = 1.6, properties.friction = 0.7, elasticity = 0.2,
                    size_p = ''fine'', properties.color = ''#D4A76A''\<rparr>\<rparr>"

section \<open>The stepper as the specification words it\<close>

text \<open>
  The five steps of one tick, each written from the specification's sentence for it and
  named \<open>spec_\<close>; they are compared with \<open>updateParticle\<close>, which is the
  source. ``Invert and scale by the restitution coefficient'' is \<open>- v * 0.8\<close>.
\<close>

definition spec_gravity :: "FlowSimulationEngine \<Rightarrow> particle \<Rightarrow> particle" where
  "spec_gravity this p = p\<lparr>vy := vy p + gravity this * particle.density p * 0.01\<rparr>"

definition spec_friction :: "particle \<Rightarrow> particle" where
  "spec_friction p = p\<lparr>vx := vx p * particle.friction p, vy := vy p * particle.friction p\<rparr>"

definition spec_move :: "FlowSimulationEngine \<Rightarrow> particle \<Rightarrow> particle" where
  "spec_move this p = p\<lparr>x := x p + vx p * speed this, y := y p + vy p * speed this\<rparr>"

definition spec_horizontal :: "canvas \<Rightarrow> particle \<Rightarrow> particle" where
  "spec_horizontal cv p =
     (if x p \<in> {radius p .. width cv - radius p} then p else p\<lparr>vx := - vx p * 0.8\<rparr>)"

definition spec_vertical :: "canvas \<Rightarrow> particle \<Rightarrow> particle" where
  "spec_vertical cv p =
     (if y p > height cv - radius p then p\<lparr>y := height cv - radius p, vy := - vy p * 0.8\<rparr> else p)"

definition spec_tick :: "FlowSimulationEngine \<Rightarrow> canvas \<Rightarrow> particle \<Rightarrow> particle" where
  "spec_tick this cv p =
     spec_vertical cv (spec_horizontal cv (spec_move this (spec_friction (spec_gravity this p))))"

section \<open>Derived notions and sample data\<close>

text \<open>
  The speed magnitude of a particle, and what it is to permute an array: \<open>js\<close>
  lists every index below \<open>n\<close> once, and \<open>permute js ps\<close> has element
  \<open>ps ! j\<close> at the place where \<open>js\<close> has \<open>j\<close>.
\<close>

definition speed_magnitude :: "particle \<Rightarrow> real" where
  "speed_magnitude p = sqrt ((vx p)\<^sup>2 + (vy p)\<^sup>2)"

definition is_permutation :: "nat list \<Rightarrow> nat \<Rightarrow> bool" where
  "is_permutation js n = (distinct js \<and> set js = {..<n})"

definition permute :: "nat list \<Rightarrow> 'a list \<Rightarrow> 'a list" where
  "permute js ps = map (\<lambda>j. ps ! j) js"

text \<open>
  A coordinate that starts at \<open>a\<close> and has the velocity \<open>v\<close> added \<open>k\<close> times,
  one rounded addition for each tick. With exact arithmetic this is \<open>a + k * v\<close>.
\<close>

primrec translate :: "(real \<Rightarrow> real) \<Rightarrow> real \<Rightarrow> real \<Rightarrow> nat \<Rightarrow> real" where
  "translate fl a v 0 = a"
| "translate fl a v (Suc k) = fl (translate fl a v k + v)"

text \<open>
  Concrete inputs: a canvas of 800 by 600, the engine as constructed and with gravity
  set to zero, a few particles, and worlds in which Sand is the current material.
  \<open>zero_random\<close> is the run of \<open>Math.random()\<close> that returns 0 each time.
  \<open>nearest_integer\<close> is a rounding with a coarse grid, the integers, on which the
  effect of rounding a position shows after one tick.
\<close>

definition canvas800x600 :: canvas where
  "canvas800x600 = \<lparr>width = 800, height = 600\<rparr>"

definition zero_gravity :: FlowSimulationEngine where
  "zero_gravity = setGravity 0 constructor"

definition zero_random :: "nat \<Rightarrow> real" where
  "zero_random k = 0"

definition corner_particle :: particle where
  "corner_particle =
     \<lparr>x = 795, y = 598, vx = 10, vy = 10, radius = 5, particle.color = ''#808080'',
      particle.density = 1, particle.friction = 0.5\<rparr>"

definition wall_particle :: particle where
  "wall_particle =
     \<lparr>x = 4, y = 100, vx = - 2, vy = 0, radius = 5, particle.color = ''#808080'',
      particle.density = 1, particle.friction = 0.5\<rparr>"

definition leaving_particle :: particle where
  "leaving_particle =
     \<lparr>x = 5.2, y = 300, vx = - 1, vy = 0, radius = 5, particle.color = ''#808080'',
      particle.density = 7.85, particle.friction = 0.3\<rparr>"

definition falling_particle :: particle where
  "falling_particle =
     \<lparr>x = 400, y = 590, vx = 0, vy = 10, radius = 5, particle.color = ''#808080'',
      particle.density = 1, particle.friction = 1\<rparr>"

definition offgrid_particle :: particle where
  "offgrid_particle =
     \<lparr>x = 400.3, y = 300.6, vx = 2, vy = - 1, radius = 5, particle.color = ''#808080'',
      particle.density = 1, particle.friction = 1\<rparr>"

definition nearest_integer :: "real \<Rightarrow> real" where
  "nearest_integer a = of_int \<lfloor>a + 1 / 2\<rfloor>"

definition first_sand_particle :: particle where
  "first_sand_particle = newParticle Sand canvas800x600 zero_random 0"

definition engine3 :: FlowSimulationEngine where
  "engine3 = constructor\<lparr>particles := [corner_particle, wall_particle, corner_particle],
                         isRunning := True\<rparr>"

definition sand_world :: world where
  "sand_world =
     \<lparr>flowSimulation = constructor,
      appState = \<lparr>currentMaterial = Some Sand, simulationActive = False\<rparr>,
      mainCanvas = canvas800x600,
      random = zero_random\<rparr>"

definition running_world :: world where
  "running_world =
     \<lparr>flowSimulation = engine3,
      appState = \<lparr>currentMaterial = Some Sand, simulationActive = True\<rparr>,
      mainCanvas = canvas800x600,
      random = zero_random\<rparr>"

section \<open>One tick of one particle\<close>

text \<open>
  The callback in closed form: the assignments of the source composed, with each
  boundary test written on the values it is applied to.
\<close>

lemma updateParticle_eq:
  "updateParticle this cv p =
     p\<lparr>x := x p + vx p * particle.friction p * speed this,
       y := (if height cv - radius p
                  < y p + (vy p + gravity this * particle.density p * 0.01) * particle.friction p * speed this
             then height cv - radius p
             else y p + (vy p + gravity this * particle.density p * 0.01) * particle.friction p * speed this),
       vx := (if x p + vx p * particle.friction p * speed this < radius p
                 \<or> width cv - radius p < x p + vx p * particle.friction p * speed this
              then vx p * particle.friction p * (- 0.8) else vx p * particle.friction p),
       vy := (if height cv - radius p
                  < y p + (vy p + gravity this * particle.density p * 0.01) * particle.friction p * speed this
              then (vy p + gravity this * particle.density p * 0.01) * particle.friction p * (- 0.8)
              else (vy p + gravity this * particle.density p * 0.01) * particle.friction p)\<rparr>"
  by (cases p) (simp add: updateParticle_def Let_def)

lemma updateParticle_x:
  "x (updateParticle this cv p) = x p + vx p * particle.friction p * speed this"
  by (simp add: updateParticle_eq)

lemma updateParticle_y:
  "y (updateParticle this cv p) =
     min (height cv - radius p)
       (y p + (vy p + gravity this * particle.density p * 0.01) * particle.friction p * speed this)"
  by (simp add: updateParticle_eq min_def)

lemma updateParticle_vx:
  "vx (updateParticle this cv p) =
     (if x p + vx p * particle.friction p * speed this < radius p
         \<or> width cv - radius p < x p + vx p * particle.friction p * speed this
      then vx p * particle.friction p * (- 0.8) else vx p * particle.friction p)"
  by (simp add: updateParticle_eq)

lemma updateParticle_vy:
  "vy (updateParticle this cv p) =
     (if height cv - radius p
           < y p + (vy p + gravity this * particle.density p * 0.01) * particle.friction p * speed this
      then (vy p + gravity this * particle.density p * 0.01) * particle.friction p * (- 0.8)
      else (vy p + gravity this * particle.density p * 0.01) * particle.friction p)"
  by (simp add: updateParticle_eq)

lemma updateParticle_frame:
  "radius (updateParticle this cv p) = radius p"
  "particle.color (updateParticle this cv p) = particle.color p"
  "particle.density (updateParticle this cv p) = particle.density p"
  "particle.friction (updateParticle this cv p) = particle.friction p"
  by (simp_all add: updateParticle_eq)

lemma updateParticle_pure:
  "gravity this' = gravity this \<Longrightarrow> speed this' = speed this \<Longrightarrow>
   width cv' = width cv \<Longrightarrow> height cv' = height cv \<Longrightarrow>
   updateParticle this' cv' p = updateParticle this cv p"
  by (simp add: updateParticle_eq)

section \<open>The loops\<close>

lemma forEach_take_drop:
  "i \<le> length ps \<Longrightarrow> forEach f i ps = take i ps @ map f (drop i ps)"
proof (induction f i ps rule: forEach.induct)
  case (1 f i ps)
  show ?case
  proof (cases "i < length ps")
    case True
    have "forEach f i ps = forEach f (Suc i) (ps[i := f (ps ! i)])"
      using True by (subst forEach.simps) simp
    also have "\<dots> = take (Suc i) (ps[i := f (ps ! i)]) @ map f (drop (Suc i) (ps[i := f (ps ! i)]))"
      using True by (intro "1.IH") simp_all
    also have "\<dots> = take i ps @ map f (drop i ps)"
      using True by (simp add: take_Suc_conv_app_nth Cons_nth_drop_Suc[symmetric])
    finally show ?thesis .
  next
    case False
    with "1.prems" have "i = length ps" by simp
    then show ?thesis by (subst forEach.simps) simp
  qed
qed

lemma forEach_map: "forEach f 0 ps = map f ps"
  by (simp add: forEach_take_drop)

lemma particles_updateParticles:
  "particles (updateParticles cv this) = map (updateParticle this cv) (particles this)"
  by (simp add: updateParticles_def forEach_map)

lemma pushLoop_length:
  "length (pushLoop material cv rnd cnt i ps) = length ps + (cnt - i)"
proof (induction material cv rnd cnt i ps rule: pushLoop.induct)
  case (1 material cv rnd cnt i ps)
  show ?case
  proof (cases "i < cnt")
    case True
    then show ?thesis using "1.IH" by (subst pushLoop.simps) simp
  next
    case False
    then show ?thesis by (subst pushLoop.simps) simp
  qed
qed

lemma y_after_updateParticles:
  assumes "q \<in> set (particles (updateParticles cv this))"
  shows "y q \<le> height cv - radius q"
proof -
  from assms obtain p where q: "q = updateParticle this cv p"
    by (auto simp add: particles_updateParticles)
  have "y q \<le> height cv - radius p"
    unfolding q by (simp add: updateParticle_y)
  then show ?thesis
    by (simp add: q updateParticle_frame)
qed

lemma updateParticlesN_Suc:
  "updateParticlesN cv (Suc n) this = updateParticles cv (updateParticlesN cv n this)"
  by (simp add: updateParticlesN_def)

lemma ticks_0: "ticks this cv 0 p = p"
  by (simp add: ticks_def)

lemma ticks_Suc: "ticks this cv (Suc n) p = updateParticle this cv (ticks this cv n p)"
  by (simp add: ticks_def)

lemma ticks_friction: "particle.friction (ticks this cv n p) = particle.friction p"
  by (induction n) (simp_all add: ticks_0 ticks_Suc updateParticle_frame)

section \<open>Starting and stopping\<close>

lemma particles_initializeParticles:
  "particles (flowSimulation (initializeParticles material w)) =
     pushLoop material (mainCanvas w) (random w) (particleCount material) 0 []"
  by (simp add: initializeParticles_def Let_def)

lemma initializeParticles_other:
  "isRunning (flowSimulation (initializeParticles material w)) = isRunning (flowSimulation w)"
  "gravity (flowSimulation (initializeParticles material w)) = gravity (flowSimulation w)"
  "speed (flowSimulation (initializeParticles material w)) = speed (flowSimulation w)"
  "mainCanvas (initializeParticles material w) = mainCanvas w"
  by (simp_all add: initializeParticles_def Let_def)

lemma particles_start:
  assumes "\<not> isRunning (flowSimulation w)" and "currentMaterial (appState w) = Some material"
  shows "particles (flowSimulation (start w)) =
           map (updateParticle (flowSimulation w) (mainCanvas w))
             (pushLoop material (mainCanvas w) (random w) (particleCount material) 0 [])"
proof -
  define w2 where
    "w2 = w\<lparr>flowSimulation := (flowSimulation w)\<lparr>isRunning := True\<rparr>,
            appState := (appState w)\<lparr>simulationActive := True\<rparr>\<rparr>"
  define w3 where "w3 = initializeParticles material w2"
  have st: "start w = animate w3"
    using assms by (simp add: start_def Let_def w2_def w3_def)
  have run: "isRunning (flowSimulation w3)"
    by (simp add: w3_def initializeParticles_other w2_def)
  have cv: "mainCanvas w3 = mainCanvas w"
    by (simp add: w3_def initializeParticles_other w2_def)
  have ps: "particles (flowSimulation w3) =
              pushLoop material (mainCanvas w) (random w) (particleCount material) 0 []"
    by (simp add: w3_def particles_initializeParticles w2_def)
  have "updateParticle (flowSimulation w3) (mainCanvas w) = updateParticle (flowSimulation w) (mainCanvas w)"
    by (intro ext updateParticle_pure) (simp_all add: w3_def initializeParticles_other w2_def)
  then show ?thesis
    using run by (simp add: st animate_def particles_updateParticles cv ps)
qed

lemma length_particles_start:
  assumes "\<not> isRunning (flowSimulation w)" and "currentMaterial (appState w) = Some material"
  shows "length (particles (flowSimulation (start w))) = particleCount material"
  using assms by (simp add: particles_start pushLoop_length)

lemma particles_stop: "particles (flowSimulation (stop w)) = particles (flowSimulation w)"
  by (simp add: stop_def Let_def)

lemma stop_other:
  "\<not> isRunning (flowSimulation (stop w))"
  "currentMaterial (appState (stop w)) = currentMaterial (appState w)"
  "mainCanvas (stop w) = mainCanvas w"
  "random (stop w) = random w"
  "gravity (flowSimulation (stop w)) = gravity (flowSimulation w)"
  "speed (flowSimulation (stop w)) = speed (flowSimulation w)"
  by (simp_all add: stop_def Let_def)

section \<open>Decay of the velocity under friction\<close>

text \<open>
  With a friction that is not negative, a tick multiplies each velocity component by the
  friction and, at a bound, by \<open>- 0.8\<close> as well; under zero gravity nothing is
  added, so each component shrinks in absolute value by at least the factor
  \<open>friction\<close>, and so does the speed magnitude.
\<close>

lemma abs_vx_updateParticle:
  assumes "0 \<le> particle.friction p"
  shows "\<bar>vx (updateParticle this cv p)\<bar> \<le> particle.friction p * \<bar>vx p\<bar>"
proof -
  define t where "t = particle.friction p * \<bar>vx p\<bar>"
  have t: "0 \<le> t" "\<bar>vx p * particle.friction p\<bar> = t"
    using assms by (simp_all add: t_def abs_mult mult.commute)
  have "\<bar>vx p * particle.friction p * (- 0.8)\<bar> = t * 0.8"
    using t(2) by (simp add: abs_mult)
  then have "\<bar>vx p * particle.friction p * (- 0.8)\<bar> \<le> t"
    using t(1) by simp
  then show ?thesis
    using t(2) unfolding updateParticle_vx t_def [symmetric] by (simp split: if_splits)
qed

lemma abs_vy_updateParticle:
  assumes "gravity this = 0" and "0 \<le> particle.friction p"
  shows "\<bar>vy (updateParticle this cv p)\<bar> \<le> particle.friction p * \<bar>vy p\<bar>"
proof -
  define t where "t = particle.friction p * \<bar>vy p\<bar>"
  have t: "0 \<le> t" "\<bar>vy p * particle.friction p\<bar> = t"
    using assms(2) by (simp_all add: t_def abs_mult mult.commute)
  have "\<bar>vy p * particle.friction p * (- 0.8)\<bar> = t * 0.8"
    using t(2) by (simp add: abs_mult)
  then have "\<bar>vy p * particle.friction p * (- 0.8)\<bar> \<le> t"
    using t(1) by simp
  then show ?thesis
    using t(2) unfolding updateParticle_vy t_def [symmetric] by (simp add: assms(1) split: if_splits)
qed

lemma speed_magnitude_nonneg: "0 \<le> speed_magnitude p"
  by (simp add: speed_magnitude_def)

lemma speed_magnitude_updateParticle:
  assumes "gravity this = 0" and "0 \<le> particle.friction p"
  shows "speed_magnitude (updateParticle this cv p) \<le> particle.friction p * speed_magnitude p"
proof -
  let ?f = "particle.friction p"
  let ?q = "updateParticle this cv p"
  have "\<bar>vx ?q\<bar>\<^sup>2 \<le> (?f * \<bar>vx p\<bar>)\<^sup>2"
    by (intro power_mono abs_vx_updateParticle assms) simp
  then have a: "(vx ?q)\<^sup>2 \<le> ?f\<^sup>2 * (vx p)\<^sup>2"
    by (simp add: power_mult_distrib)
  have "\<bar>vy ?q\<bar>\<^sup>2 \<le> (?f * \<bar>vy p\<bar>)\<^sup>2"
    by (intro power_mono abs_vy_updateParticle assms) simp
  then have b: "(vy ?q)\<^sup>2 \<le> ?f\<^sup>2 * (vy p)\<^sup>2"
    by (simp add: power_mult_distrib)
  have "(vx ?q)\<^sup>2 + (vy ?q)\<^sup>2 \<le> ?f\<^sup>2 * ((vx p)\<^sup>2 + (vy p)\<^sup>2)"
    using a b by (simp add: distrib_left)
  then have "sqrt ((vx ?q)\<^sup>2 + (vy ?q)\<^sup>2) \<le> sqrt (?f\<^sup>2 * ((vx p)\<^sup>2 + (vy p)\<^sup>2))"
    by (rule real_sqrt_le_mono)
  also have "\<dots> = ?f * sqrt ((vx p)\<^sup>2 + (vy p)\<^sup>2)"
    using assms(2) by (simp add: real_sqrt_mult)
  finally show ?thesis
    by (simp add: speed_magnitude_def)
qed

lemma speed_magnitude_ticks:
  assumes "gravity this = 0" and "0 \<le> particle.friction p"
  shows "speed_magnitude (ticks this cv n p) \<le> particle.friction p ^ n * speed_magnitude p"
proof (induction n)
  case 0
  show ?case by (simp add: ticks_0)
next
  case (Suc n)
  have "speed_magnitude (ticks this cv (Suc n) p)
          \<le> particle.friction p * speed_magnitude (ticks this cv n p)"
    using speed_magnitude_updateParticle [of this "ticks this cv n p" cv] assms
    by (simp add: ticks_Suc ticks_friction)
  also have "\<dots> \<le> particle.friction p * (particle.friction p ^ n * speed_magnitude p)"
    using Suc.IH assms(2) by (rule mult_left_mono)
  finally show ?case by (simp add: mult.assoc)
qed

section \<open>The callback with rounded arithmetic\<close>

text \<open>
  With exact arithmetic the rounded callback is \<open>updateParticle\<close>. With gravity 0,
  friction 1 and speed 1, and a velocity that is a machine number, the products and the
  gravity term of a tick are exact, and what is left of the tick is one rounded addition
  for each coordinate and the two boundary tests.
\<close>

lemma updateParticle_fl_exact: "updateParticle_fl (\<lambda>a. a) this cv p = updateParticle this cv p"
  by (simp add: updateParticle_fl_def updateParticle_def)

lemma ticks_fl_exact: "ticks_fl (\<lambda>a. a) this cv n = ticks this cv n"
proof -
  have "updateParticle_fl (\<lambda>a. a) this cv = updateParticle this cv"
    by (rule ext) (rule updateParticle_fl_exact)
  then show ?thesis
    by (simp add: ticks_fl_def ticks_def)
qed

lemma translate_exact: "translate (\<lambda>a. a) a v n = a + real n * v"
  by (induction n) (simp_all add: algebra_simps)

lemma updateParticle_fl_free:
  assumes "fl 0 = 0" and "fl (vx p) = vx p" and "fl (vy p) = vy p"
    and "gravity this = 0" and "particle.friction p = 1" and "speed this = 1"
  shows "updateParticle_fl fl this cv p =
     p\<lparr>x := fl (x p + vx p),
       y := (if fl (height cv - radius p) < fl (y p + vy p) then fl (height cv - radius p)
             else fl (y p + vy p)),
       vx := (if fl (x p + vx p) < radius p \<or> fl (width cv - radius p) < fl (x p + vx p)
              then fl (vx p * (- fl 0.8)) else vx p),
       vy := (if fl (height cv - radius p) < fl (y p + vy p)
              then fl (vy p * (- fl 0.8)) else vy p)\<rparr>"
  using assms by (cases p) (simp add: updateParticle_fl_def Let_def)

lemma ticks_fl_0: "ticks_fl fl this cv 0 p = p"
  by (simp add: ticks_fl_def)

lemma ticks_fl_Suc:
  "ticks_fl fl this cv (Suc n) p = updateParticle_fl fl this cv (ticks_fl fl this cv n p)"
  by (simp add: ticks_fl_def)

lemma ticks_fl_free:
  assumes "fl 0 = 0" and "fl (vx p) = vx p" and "fl (vy p) = vy p"
    and "gravity this = 0" and "particle.friction p = 1" and "speed this = 1"
    and "\<forall>k \<in> {1..n}. radius p \<le> translate fl (x p) (vx p) k \<and>
                        translate fl (x p) (vx p) k \<le> fl (width cv - radius p) \<and>
                        translate fl (y p) (vy p) k \<le> fl (height cv - radius p)"
  shows "ticks_fl fl this cv n p =
           p\<lparr>x := translate fl (x p) (vx p) n, y := translate fl (y p) (vy p) n\<rparr>"
  using assms(7)
proof (induction n)
  case 0
  show ?case by (simp add: ticks_fl_0)
next
  case (Suc n)
  have IH: "ticks_fl fl this cv n p =
              p\<lparr>x := translate fl (x p) (vx p) n, y := translate fl (y p) (vy p) n\<rparr>"
    using Suc.prems by (intro Suc.IH) simp
  have b: "radius p \<le> translate fl (x p) (vx p) (Suc n) \<and>
           translate fl (x p) (vx p) (Suc n) \<le> fl (width cv - radius p) \<and>
           translate fl (y p) (vy p) (Suc n) \<le> fl (height cv - radius p)"
  proof -
    have "Suc n \<in> {1..Suc n}" by simp
    then show ?thesis using Suc.prems by blast
  qed
  let ?q = "p\<lparr>x := translate fl (x p) (vx p) n, y := translate fl (y p) (vy p) n\<rparr>"
  have "updateParticle_fl fl this cv ?q =
          p\<lparr>x := translate fl (x p) (vx p) (Suc n), y := translate fl (y p) (vy p) (Suc n)\<rparr>"
    using b by (subst updateParticle_fl_free) (simp_all add: assms(1-6) not_less)
  then show ?case
    by (simp only: ticks_fl_Suc IH)
qed

section \<open>The claims\<close>

subsection \<open>C1: the steps of a tick and their order\<close>

text \<open>
  Claim C1. One tick of a particle is exactly the five steps of the specification in
  their order: gravity (\<open>vy\<close> grows by \<open>gravity * density * 0.01\<close>), friction
  (\<open>vx\<close> and \<open>vy\<close> are multiplied by the particle's friction), the move
  (\<open>x\<close> grows by \<open>vx * speed\<close>, \<open>y\<close> by \<open>vy * speed\<close>), the horizontal
  bound (outside \<open>[radius, width - radius]\<close> the velocity \<open>vx\<close> is inverted and
  scaled by 0.8) and the vertical bound (beyond \<open>height - radius\<close> the position
  \<open>y\<close> is clamped there and \<open>vy\<close> is inverted and scaled by 0.8).
\<close>

theorem tick_steps_in_order: "updateParticle this cv p = spec_tick this cv p"
  by (cases p) (simp add: updateParticle_eq spec_tick_def spec_vertical_def spec_horizontal_def
      spec_move_def spec_friction_def spec_gravity_def not_le not_less)

text \<open>
  At a particle in the lower right corner both bounds fire: the reflected velocities are
  those after friction, and \<open>y\<close> is put on the floor line.
\<close>

theorem tick_steps_in_order_witness:
  "updateParticle constructor canvas800x600 corner_particle =
     corner_particle\<lparr>x := 800, y := 595, vx := - 4, vy := - 4.0392\<rparr>"
  using tick_steps_in_order [of constructor canvas800x600 corner_particle]
  by (simp add: spec_tick_def spec_vertical_def spec_horizontal_def spec_move_def
      spec_friction_def spec_gravity_def constructor_def canvas800x600_def corner_particle_def)

subsection \<open>C2: how many particles a start creates\<close>

text \<open>
  Claim C2, as the code has it. A start of the stopped engine with a current material
  creates 500 particles when the material's \<open>type\<close> is \<open>bulk\<close>, 300 when it is
  \<open>granular\<close> and 100 for every other type. The field that decides is \<open>type\<close>;
  the field \<open>category\<close> is not read.
\<close>

theorem particle_count_by_type:
  assumes "\<not> isRunning (flowSimulation w)" and "currentMaterial (appState w) = Some material"
  shows "length (particles (flowSimulation (start w))) =
           (if type material = ''bulk'' then 500 else if type material = ''granular'' then 300 else 100)"
  using assms by (simp add: length_particles_start particleCount_def)

theorem particle_count_by_type_witness:
  "\<not> isRunning (flowSimulation sand_world) \<and>
   currentMaterial (appState sand_world) = Some Sand \<and>
   type Sand = ''bulk'' \<and>
   length (particles (flowSimulation (start sand_world))) = 500"
  using particle_count_by_type [of sand_world Sand]
  by (simp add: Sand_def sand_world_def constructor_def)

text \<open>
  The claim as stated, by category, fails at Sand: its category is \<open>granular\<close>, its
  type is \<open>bulk\<close>, and the start creates 500 particles, not 300.
\<close>

theorem particle_count_by_category_counterexample:
  "\<not> isRunning (flowSimulation sand_world) \<and>
   currentMaterial (appState sand_world) = Some Sand \<and>
   category Sand = ''granular'' \<and>
   length (particles (flowSimulation (start sand_world))) \<noteq> 300"
proof -
  have "length (particles (flowSimulation (start sand_world))) = particleCount Sand"
    by (rule length_particles_start) (simp_all add: sand_world_def constructor_def)
  then show ?thesis
    by (simp add: particleCount_def Sand_def sand_world_def constructor_def)
qed

subsection \<open>C3: the canvas bounds after a tick\<close>

text \<open>
  Claim C3, as the code has it. After every tick of the engine each particle lies on or
  above the floor line: \<open>y \<le> height - radius\<close>. This holds after the first tick and
  after each later one, whatever the particles were before.
\<close>

theorem floor_bound_after_every_tick:
  "\<forall>q \<in> set (particles (updateParticlesN cv (Suc n) this)). y q \<le> height cv - radius q"
  by (simp add: updateParticlesN_Suc y_after_updateParticles)

theorem floor_bound_after_every_tick_witness:
  "particles (updateParticlesN canvas800x600 (Suc 0) engine3) ! 0
     \<in> set (particles (updateParticlesN canvas800x600 (Suc 0) engine3)) \<and>
   y (particles (updateParticlesN canvas800x600 (Suc 0) engine3) ! 0) \<le> 595"
proof -
  have len: "length (particles (updateParticlesN canvas800x600 (Suc 0) engine3)) = 3"
    by (simp add: updateParticlesN_def particles_updateParticles engine3_def)
  then have mem: "particles (updateParticlesN canvas800x600 (Suc 0) engine3) ! 0
     \<in> set (particles (updateParticlesN canvas800x600 (Suc 0) engine3))"
    by (intro nth_mem) simp
  have r: "radius (particles (updateParticlesN canvas800x600 (Suc 0) engine3) ! 0) = 5"
    by (simp add: updateParticlesN_def particles_updateParticles engine3_def
        updateParticle_frame corner_particle_def)
  have "y (particles (updateParticlesN canvas800x600 (Suc 0) engine3) ! 0)
          \<le> height canvas800x600
              - radius (particles (updateParticlesN canvas800x600 (Suc 0) engine3) ! 0)"
    using floor_bound_after_every_tick [of canvas800x600 0 engine3] mem by blast
  moreover have "height canvas800x600 = 600"
    by (simp add: canvas800x600_def)
  ultimately show ?thesis
    using mem r by simp
qed

text \<open>
  The other three bounds of the claim are not kept. A particle inside the canvas that
  moves past the left wall has only its velocity reflected, and is outside after the
  tick; so is one that moves past the right wall. The first particle of a start with
  Sand, created at \<open>y = 0\<close>, has \<open>y < radius\<close> after the tick, since no
  test looks at the top of the canvas.
\<close>

theorem canvas_bounds_counterexample:
  "radius leaving_particle \<le> x leaving_particle \<and>
   x leaving_particle \<le> width canvas800x600 - radius leaving_particle \<and>
   radius leaving_particle \<le> y leaving_particle \<and>
   y leaving_particle \<le> height canvas800x600 - radius leaving_particle \<and>
   x (updateParticle constructor canvas800x600 leaving_particle)
     < radius (updateParticle constructor canvas800x600 leaving_particle) \<and>
   width canvas800x600 - radius (updateParticle constructor canvas800x600 corner_particle)
     < x (updateParticle constructor canvas800x600 corner_particle) \<and>
   y (updateParticle constructor canvas800x600 first_sand_particle)
     < radius (updateParticle constructor canvas800x600 first_sand_particle)"
  by (simp add: updateParticle_x updateParticle_y updateParticle_frame leaving_particle_def
      corner_particle_def first_sand_particle_def newParticle_def Sand_def zero_random_def
      constructor_def canvas800x600_def)

subsection \<open>C4: reflection at the left wall\<close>

text \<open>
  Claim C4, as the code has it. A particle at \<open>x = radius - 1\<close> with \<open>vx < 0\<close>,
  positive friction and a speed multiplier that is not negative has, after one tick,
  \<open>vx' = -0.8 * (friction * vx)\<close>, which is positive: friction is applied before the
  reflection.
\<close>

theorem wall_reflection:
  assumes "x p = radius p - 1" and "vx p < 0" and "0 < particle.friction p" and "0 \<le> speed this"
  shows "vx (updateParticle this cv p) = - 0.8 * (particle.friction p * vx p) \<and>
         0 < vx (updateParticle this cv p)"
proof -
  define t where "t = vx p * particle.friction p"
  have neg: "t < 0"
    unfolding t_def using assms(2,3) by (rule mult_neg_pos)
  then have "t * speed this \<le> 0"
    using assms(4) by (simp add: mult_nonpos_nonneg)
  then have out: "x p + t * speed this < radius p"
    using assms(1) by simp
  have eq: "vx (updateParticle this cv p) = t * (- 0.8)"
    using out unfolding t_def by (simp add: updateParticle_vx)
  have "t * (- 0.8) = - 0.8 * (particle.friction p * vx p)"
    unfolding t_def by simp
  moreover have "0 < t * (- 0.8)"
    using neg by simp
  ultimately show ?thesis using eq by simp
qed

theorem wall_reflection_witness:
  "x wall_particle = radius wall_particle - 1 \<and> vx wall_particle < 0 \<and>
   0 < particle.friction wall_particle \<and> 0 \<le> speed constructor \<and>
   vx (updateParticle constructor canvas800x600 wall_particle) = 0.8"
  using wall_reflection [of wall_particle constructor canvas800x600]
  by (simp add: wall_particle_def constructor_def)

text \<open>
  Without the factor of friction the claim fails: at friction 0.5 and \<open>vx = -2\<close>
  the velocity after the tick is 0.8, and \<open>-0.8 * vx\<close> is 1.6.
\<close>

theorem wall_reflection_counterexample:
  "x wall_particle = radius wall_particle - 1 \<and> vx wall_particle < 0 \<and>
   vx (updateParticle constructor canvas800x600 wall_particle) \<noteq> - 0.8 * vx wall_particle"
  by (simp add: updateParticle_vx wall_particle_def constructor_def canvas800x600_def)

subsection \<open>C5: the floor clamp\<close>

text \<open>
  Claim C5. Every particle ends a tick with \<open>y \<le> height - radius\<close>, and a particle
  that the move takes beyond \<open>height - radius\<close> ends the tick exactly there.
\<close>

theorem floor_clamp:
  "y (updateParticle this cv p) \<le> height cv - radius p \<and>
   (height cv - radius p
      < y p + (vy p + gravity this * particle.density p * 0.01) * particle.friction p * speed this
    \<longrightarrow> y (updateParticle this cv p) = height cv - radius p)"
  by (simp add: updateParticle_y)

theorem floor_clamp_witness:
  "height canvas800x600 - radius corner_particle
     < y corner_particle
       + (vy corner_particle + gravity constructor * particle.density corner_particle * 0.01)
         * particle.friction corner_particle * speed constructor \<and>
   y (updateParticle constructor canvas800x600 corner_particle) = 595"
  using floor_clamp [of constructor canvas800x600 corner_particle]
  by (simp add: constructor_def canvas800x600_def corner_particle_def)

subsection \<open>C6: pure translation\<close>

text \<open>
  Claim C6, as the code has it. Let gravity be 0, friction 1 and speed 1, and let the
  velocity of the particle be a machine number. Follow each coordinate from its initial
  value by adding the initial velocity once for each tick, rounding each sum. If this path
  is on or above the floor line at the ticks \<open>1\<close> to \<open>n\<close> and between the walls at
  the ticks before \<open>n\<close>, then after \<open>n\<close> ticks the particle is at the \<open>n\<close>-th
  point of the path, and \<open>vy\<close> is the initial one; so is \<open>vx\<close> when the \<open>n\<close>-th
  point is between the walls as well. With exact arithmetic the \<open>n\<close>-th point is the
  initial position plus \<open>n\<close> times the initial velocity.
\<close>

theorem pure_translation:
  assumes "fl 0 = 0" and "fl (vx p) = vx p" and "fl (vy p) = vy p"
    and "gravity this = 0" and "particle.friction p = 1" and "speed this = 1"
    and "\<forall>k \<in> {1..<n}. radius p \<le> translate fl (x p) (vx p) k \<and>
                         translate fl (x p) (vx p) k \<le> fl (width cv - radius p)"
    and "\<forall>k \<in> {1..n}. translate fl (y p) (vy p) k \<le> fl (height cv - radius p)"
  shows "x (ticks_fl fl this cv n p) = translate fl (x p) (vx p) n \<and>
         y (ticks_fl fl this cv n p) = translate fl (y p) (vy p) n \<and>
         vy (ticks_fl fl this cv n p) = vy p \<and>
         (radius p \<le> translate fl (x p) (vx p) n \<and>
          translate fl (x p) (vx p) n \<le> fl (width cv - radius p)
            \<longrightarrow> vx (ticks_fl fl this cv n p) = vx p)"
proof (cases n)
  case 0
  then show ?thesis by (simp add: ticks_fl_0)
next
  case (Suc m)
  have "\<forall>k \<in> {1..m}. radius p \<le> translate fl (x p) (vx p) k \<and>
                        translate fl (x p) (vx p) k \<le> fl (width cv - radius p) \<and>
                        translate fl (y p) (vy p) k \<le> fl (height cv - radius p)"
    using assms(7,8) Suc by auto
  then have m: "ticks_fl fl this cv m p =
              p\<lparr>x := translate fl (x p) (vx p) m, y := translate fl (y p) (vy p) m\<rparr>"
    by (rule ticks_fl_free [OF assms(1-6)])
  have f: "translate fl (y p) (vy p) (Suc m) \<le> fl (height cv - radius p)"
  proof -
    have "Suc m \<in> {1..n}" using Suc by simp
    then show ?thesis using assms(8) by blast
  qed
  let ?q = "p\<lparr>x := translate fl (x p) (vx p) m, y := translate fl (y p) (vy p) m\<rparr>"
  have "updateParticle_fl fl this cv ?q =
          ?q\<lparr>x := translate fl (x p) (vx p) (Suc m),
             y := translate fl (y p) (vy p) (Suc m),
             vx := (if translate fl (x p) (vx p) (Suc m) < radius p
                       \<or> fl (width cv - radius p) < translate fl (x p) (vx p) (Suc m)
                    then fl (vx p * (- fl 0.8)) else vx p),
             vy := vy p\<rparr>"
    using f by (subst updateParticle_fl_free) (simp_all add: assms(1-6) not_less)
  then have "ticks_fl fl this cv n p =
          ?q\<lparr>x := translate fl (x p) (vx p) n,
             y := translate fl (y p) (vy p) n,
             vx := (if translate fl (x p) (vx p) n < radius p
                       \<or> fl (width cv - radius p) < translate fl (x p) (vx p) n
                    then fl (vx p * (- fl 0.8)) else vx p),
             vy := vy p\<rparr>"
    by (simp only: Suc ticks_fl_Suc m)
  then show ?thesis
    by (simp add: not_less)
qed

text \<open>
  An instance with a visible rounding: on the grid of the integers a particle that starts
  at \<open>(400.3, 300.6)\<close> with velocity \<open>(2, -1)\<close> is at \<open>(406, 298)\<close> after three
  ticks, with its velocity unchanged.
\<close>

theorem pure_translation_witness:
  "nearest_integer 0 = 0 \<and> nearest_integer (vx offgrid_particle) = vx offgrid_particle \<and>
   nearest_integer (vy offgrid_particle) = vy offgrid_particle \<and>
   gravity zero_gravity = 0 \<and> particle.friction offgrid_particle = 1 \<and> speed zero_gravity = 1 \<and>
   x (ticks_fl nearest_integer zero_gravity canvas800x600 3 offgrid_particle) = 406 \<and>
   y (ticks_fl nearest_integer zero_gravity canvas800x600 3 offgrid_particle) = 298 \<and>
   vx (ticks_fl nearest_integer zero_gravity canvas800x600 3 offgrid_particle) = 2 \<and>
   vy (ticks_fl nearest_integer zero_gravity canvas800x600 3 offgrid_particle) = - 1"
proof -
  have three: "translate fl a v 3 = fl (fl (fl (a + v) + v) + v)" for fl a v
    by (simp add: numeral_3_eq_3)
  have walls: "\<forall>k \<in> {1..<3::nat}.
      radius offgrid_particle \<le> translate nearest_integer (x offgrid_particle) (vx offgrid_particle) k \<and>
      translate nearest_integer (x offgrid_particle) (vx offgrid_particle) k
        \<le> nearest_integer (width canvas800x600 - radius offgrid_particle)"
  proof
    fix k :: nat
    assume "k \<in> {1..<3}"
    then have "k = Suc 0 \<or> k = Suc (Suc 0)"
      by auto
    then show "radius offgrid_particle
          \<le> translate nearest_integer (x offgrid_particle) (vx offgrid_particle) k \<and>
        translate nearest_integer (x offgrid_particle) (vx offgrid_particle) k
          \<le> nearest_integer (width canvas800x600 - radius offgrid_particle)"
      by (auto simp add: offgrid_particle_def canvas800x600_def nearest_integer_def)
  qed
  have floor: "\<forall>k \<in> {1..3::nat}.
      translate nearest_integer (y offgrid_particle) (vy offgrid_particle) k
        \<le> nearest_integer (height canvas800x600 - radius offgrid_particle)"
  proof
    fix k :: nat
    assume "k \<in> {1..3}"
    then have "k = Suc 0 \<or> k = Suc (Suc 0) \<or> k = Suc (Suc (Suc 0))"
      by auto
    then show "translate nearest_integer (y offgrid_particle) (vy offgrid_particle) k
        \<le> nearest_integer (height canvas800x600 - radius offgrid_particle)"
      by (auto simp add: offgrid_particle_def canvas800x600_def nearest_integer_def)
  qed
  show ?thesis
    using pure_translation [of nearest_integer offgrid_particle zero_gravity 3 canvas800x600, OF _ _ _ _ _ _ walls floor]
    by (simp add: three zero_gravity_def setGravity_def constructor_def offgrid_particle_def
        canvas800x600_def nearest_integer_def)
qed

text \<open>
  Without the condition on the path the claim fails at the floor: a particle at
  \<open>y = 590\<close> falling with \<open>vy = 10\<close> on a canvas of height 600 is clamped to
  \<open>y = 595\<close> by the first tick. Every number of this tick is an integer, so no
  rounding takes part in it.
\<close>

theorem pure_translation_counterexample:
  "gravity zero_gravity = 0 \<and> particle.friction falling_particle = 1 \<and> speed zero_gravity = 1 \<and>
   y (ticks zero_gravity canvas800x600 1 falling_particle)
     \<noteq> y falling_particle + 1 * vy falling_particle"
  by (simp add: ticks_def updateParticle_y zero_gravity_def setGravity_def constructor_def
      canvas800x600_def falling_particle_def)

subsection \<open>C7: decay of the speed under zero gravity\<close>

text \<open>
  Claim C7. For a particle with friction strictly between 0 and 1, under zero gravity,
  the speed magnitude \<open>sqrt (vx\<^sup>2 + vy\<^sup>2)\<close> does not increase from one tick to
  the next, and over repeated ticks it converges to zero.
\<close>

theorem speed_decay:
  assumes "gravity this = 0" and "0 < particle.friction p" and "particle.friction p < 1"
  shows "(\<forall>n. speed_magnitude (ticks this cv (Suc n) p) \<le> speed_magnitude (ticks this cv n p)) \<and>
         (\<lambda>n. speed_magnitude (ticks this cv n p)) \<longlonglongrightarrow> 0"
proof
  show "\<forall>n. speed_magnitude (ticks this cv (Suc n) p) \<le> speed_magnitude (ticks this cv n p)"
  proof
    fix n
    have "speed_magnitude (ticks this cv (Suc n) p)
            \<le> particle.friction p * speed_magnitude (ticks this cv n p)"
      using speed_magnitude_updateParticle [of this "ticks this cv n p" cv] assms
      by (simp add: ticks_Suc ticks_friction)
    also have "\<dots> \<le> 1 * speed_magnitude (ticks this cv n p)"
      using assms(3) by (intro mult_right_mono speed_magnitude_nonneg) simp
    finally show "speed_magnitude (ticks this cv (Suc n) p) \<le> speed_magnitude (ticks this cv n p)"
      by simp
  qed
next
  have "(\<lambda>n. particle.friction p ^ n) \<longlonglongrightarrow> 0"
    using assms(2,3) by (intro LIMSEQ_realpow_zero) simp_all
  then have up: "(\<lambda>n. particle.friction p ^ n * speed_magnitude p) \<longlonglongrightarrow> 0"
    by (rule tendsto_mult_left_zero)
  show "(\<lambda>n. speed_magnitude (ticks this cv n p)) \<longlonglongrightarrow> 0"
  proof (rule tendsto_sandwich [OF _ _ tendsto_const up])
    show "\<forall>\<^sub>F n in sequentially. 0 \<le> speed_magnitude (ticks this cv n p)"
      by (simp add: speed_magnitude_nonneg)
    show "\<forall>\<^sub>F n in sequentially.
            speed_magnitude (ticks this cv n p) \<le> particle.friction p ^ n * speed_magnitude p"
      using assms by (simp add: speed_magnitude_ticks)
  qed
qed

theorem speed_decay_witness:
  "gravity zero_gravity = 0 \<and> 0 < particle.friction wall_particle \<and>
   particle.friction wall_particle < 1 \<and>
   speed_magnitude (ticks zero_gravity canvas800x600 (Suc 0) wall_particle)
     \<le> speed_magnitude (ticks zero_gravity canvas800x600 0 wall_particle) \<and>
   (\<lambda>n. speed_magnitude (ticks zero_gravity canvas800x600 n wall_particle)) \<longlonglongrightarrow> 0"
  using speed_decay [of zero_gravity wall_particle canvas800x600]
  by (simp add: zero_gravity_def setGravity_def constructor_def wall_particle_def)

subsection \<open>C8: the tick is pointwise and order-independent\<close>

text \<open>
  Claim C8. A tick of the engine is the single-particle step mapped over the array; its
  result depends on the engine and the canvas only through gravity, speed, width, height
  and the particles; and it commutes with every permutation of the array.
\<close>

theorem tick_pointwise_order_independent:
  "particles (updateParticles cv this) = map (updateParticle this cv) (particles this) \<and>
   (gravity this' = gravity this \<and> speed this' = speed this \<and>
    width cv' = width cv \<and> height cv' = height cv \<and> particles this' = particles this
      \<longrightarrow> particles (updateParticles cv' this') = particles (updateParticles cv this)) \<and>
   (is_permutation js (length (particles this))
      \<longrightarrow> particles (updateParticles cv (this\<lparr>particles := permute js (particles this)\<rparr>))
          = permute js (particles (updateParticles cv this)))"
proof (intro conjI impI)
  show "particles (updateParticles cv this) = map (updateParticle this cv) (particles this)"
    by (rule particles_updateParticles)
next
  assume a: "gravity this' = gravity this \<and> speed this' = speed this \<and>
    width cv' = width cv \<and> height cv' = height cv \<and> particles this' = particles this"
  then have "updateParticle this' cv' = updateParticle this cv"
    by (intro ext updateParticle_pure) simp_all
  with a show "particles (updateParticles cv' this') = particles (updateParticles cv this)"
    by (simp add: particles_updateParticles)
next
  assume "is_permutation js (length (particles this))"
  then have lt: "\<forall>j \<in> set js. j < length (particles this)"
    by (simp add: is_permutation_def)
  have "updateParticle (this\<lparr>particles := permute js (particles this)\<rparr>) cv = updateParticle this cv"
    by (intro ext updateParticle_pure) simp_all
  then show "particles (updateParticles cv (this\<lparr>particles := permute js (particles this)\<rparr>))
          = permute js (particles (updateParticles cv this))"
    using lt by (simp add: particles_updateParticles permute_def)
qed

theorem tick_pointwise_order_independent_witness:
  "is_permutation [2, 0, 1] (length (particles engine3)) \<and>
   particles (updateParticles canvas800x600 (engine3\<lparr>particles := [corner_particle, corner_particle, wall_particle]\<rparr>))
     = permute [2, 0, 1] (particles (updateParticles canvas800x600 engine3)) \<and>
   particles (updateParticles canvas800x600 (engine3\<lparr>isRunning := False, FlowSimulationEngine.friction := 0.5\<rparr>))
     = particles (updateParticles canvas800x600 engine3)"
  using tick_pointwise_order_independent [of canvas800x600 engine3 "engine3\<lparr>isRunning := False, FlowSimulationEngine.friction := 0.5\<rparr>"
      canvas800x600 "[2, 0, 1]"]
  by (auto simp add: engine3_def is_permutation_def permute_def)

subsection \<open>C9: what becomes of the particles at a stop and at a restart\<close>

text \<open>
  Claim C9, as the code has it. \<open>stop\<close> leaves the particle array as it is. A
  restart (\<open>stop\<close>, then \<open>start\<close>) with a current material replaces the array by a
  new batch, created from the material, the canvas and \<open>Math.random()\<close> and stepped
  once; the batch is the same whatever the old array held.
\<close>

theorem stop_keeps_restart_replaces:
  "particles (flowSimulation (stop w)) = particles (flowSimulation w) \<and>
   (currentMaterial (appState w) = Some material \<longrightarrow>
      particles (flowSimulation (start (stop w))) =
        map (updateParticle (flowSimulation w) (mainCanvas w))
          (pushLoop material (mainCanvas w) (random w) (particleCount material) 0 []) \<and>
      particles (flowSimulation
          (start (stop (w\<lparr>flowSimulation := (flowSimulation w)\<lparr>particles := old\<rparr>\<rparr>)))) =
        particles (flowSimulation (start (stop w))))"
proof (intro conjI impI)
  show "particles (flowSimulation (stop w)) = particles (flowSimulation w)"
    by (rule particles_stop)
next
  assume m: "currentMaterial (appState w) = Some material"
  have pure: "updateParticle (flowSimulation (stop v)) (mainCanvas v) = updateParticle (flowSimulation v) (mainCanvas v)" for v
    by (intro ext updateParticle_pure) (simp_all add: stop_other)
  have fresh: "particles (flowSimulation (start (stop v))) =
        map (updateParticle (flowSimulation v) (mainCanvas v))
          (pushLoop material (mainCanvas v) (random v) (particleCount material) 0 [])"
    if "currentMaterial (appState v) = Some material" for v
    using particles_start [of "stop v" material] that by (simp add: stop_other pure)
  show "particles (flowSimulation (start (stop w))) =
        map (updateParticle (flowSimulation w) (mainCanvas w))
          (pushLoop material (mainCanvas w) (random w) (particleCount material) 0 [])"
    using m by (rule fresh)
  let ?v = "w\<lparr>flowSimulation := (flowSimulation w)\<lparr>particles := old\<rparr>\<rparr>"
  have "updateParticle (flowSimulation ?v) (mainCanvas w) = updateParticle (flowSimulation w) (mainCanvas w)"
    by (intro ext updateParticle_pure) simp_all
  then show "particles (flowSimulation (start (stop ?v))) = particles (flowSimulation (start (stop w)))"
    using fresh [of ?v] fresh [of w] m by simp
qed

theorem stop_keeps_restart_replaces_witness:
  "currentMaterial (appState running_world) = Some Sand \<and>
   particles (flowSimulation (stop running_world)) = particles (flowSimulation running_world) \<and>
   particles (flowSimulation (start (stop (running_world\<lparr>flowSimulation := (flowSimulation running_world)\<lparr>particles := []\<rparr>\<rparr>)))) =
        particles (flowSimulation (start (stop running_world)))"
  using stop_keeps_restart_replaces [of running_world Sand "[]"]
  by (simp add: running_world_def)

text \<open>
  The claim as stated fails at \<open>stop\<close>: a running engine with three particles
  holds the same three particles after \<open>stop\<close>.
\<close>

theorem stop_discards_counterexample:
  "particles (flowSimulation (stop running_world)) = [corner_particle, wall_particle, corner_particle]"
  by (simp add: particles_stop running_world_def engine3_def)

subsection \<open>C10: what a tick leaves alone\<close>

text \<open>
  Claim C10. A tick of the engine keeps the number of particles, and keeps the radius,
  color, density and friction of each.
\<close>

theorem tick_frame:
  "length (particles (updateParticles cv this)) = length (particles this) \<and>
   (\<forall>i < length (particles this).
      radius (particles (updateParticles cv this) ! i) = radius (particles this ! i) \<and>
      particle.color (particles (updateParticles cv this) ! i) = particle.color (particles this ! i) \<and>
      particle.density (particles (updateParticles cv this) ! i) = particle.density (particles this ! i) \<and>
      particle.friction (particles (updateParticles cv this) ! i) = particle.friction (particles this ! i))"
  by (simp add: particles_updateParticles updateParticle_frame)

theorem tick_frame_witness:
  "length (particles (updateParticles canvas800x600 engine3)) = 3 \<and>
   radius (particles (updateParticles canvas800x600 engine3) ! 1) = 5 \<and>
   particle.friction (particles (updateParticles canvas800x600 engine3) ! 1) = 0.5"
  using tick_frame [of canvas800x600 engine3]
  by (simp add: engine3_def wall_particle_def)

end
